theory Spec2Isabelle
  imports Main
begin

section \<open>Promises, errors and the global scope\<close>

text \<open>
  Every method of the client is \<^verbatim>\<open>async\<close>: it returns a promise that either
  resolves to a value or rejects with an error. A call is modelled as a pair: what the
  promise settles to (\<open>Inl\<close> a rejection, \<open>Inr\<close> the resolved value) and the receiver
  object as the call leaves it. \<^verbatim>\<open>Promise<void>\<close> resolves to \<open>()\<close>.

  The error kinds are the ones the interface contract names, and \<open>ReferenceError\<close>, the
  one error the language itself can raise in \<^verbatim>\<open>Rest.ts\<close> (reading an identifier that
  has no binding).
\<close>

datatype error =
    NotFound
  | Conflict
  | PermissionDenied
  | AuthenticationFailed
  | InvalidState
  | Unavailable
  | ReferenceError

type_synonym ('a, 's) promise = "(error + 'a) \<times> 's"

text \<open>
  \<^verbatim>\<open>RestProject.name\<close> tests the identifier \<^verbatim>\<open>name\<close>. No parameter, local, import or
  class of the module has that name, so it is looked up in the global scope, which is not
  part of the repository: it is a parameter of the model. The identifier may have no
  binding there (reading it throws), or be bound to a value that the \<^verbatim>\<open>if\<close> takes as
  false (the empty string, \<^verbatim>\<open>undefined\<close>) or as true.
\<close>

datatype global = Undeclared | Falsy | Truthy

type_synonym handle = string

section \<open>The REST classes (\<^verbatim>\<open>src/Rest.ts\<close>)\<close>

text \<open>
  A class is a datatype whose constructor takes the arguments of the class's constructor
  in their order and whose selectors are the private fields. No method of the file assigns
  a field, so an object is the value of its fields. A field that holds a collection built
  by \<^verbatim>\<open>new C(this)\<close> is the function that builds that collection from the object.
\<close>

datatype RestClient = RestClient (RestClient_url_': string)

definition DEFAULT_URL :: string where
  "DEFAULT_URL = ''https://api.kipr.org''"

definition RestClient_url :: "RestClient \<Rightarrow> string" where
  "RestClient_url this = RestClient_url_' this"

datatype RestUser = RestUser (RestUser_token_': string) (RestUser_client_': RestClient)

definition RestUser_client :: "RestUser \<Rightarrow> RestClient" where
  "RestUser_client this = RestUser_client_' this"

text \<open>
  \<^verbatim>\<open>RestProject\<close> has the optional field \<^verbatim>\<open>name_\<close>, which its constructor leaves
  unset: \<open>None\<close> is \<^verbatim>\<open>undefined\<close>.
\<close>

datatype RestProject =
  RestProject_object (RestProject_handle_': handle) (RestProject_user_': RestUser)
    (RestProject_name_': "string option")

definition RestProject :: "handle \<Rightarrow> RestUser \<Rightarrow> RestProject" where
  "RestProject handle user = RestProject_object handle user None"

definition RestProject_user :: "RestProject \<Rightarrow> RestUser" where
  "RestProject_user this = RestProject_user_' this"

definition RestProject_handle :: "RestProject \<Rightarrow> handle" where
  "RestProject_handle this = RestProject_handle_' this"

datatype RestVersion = RestVersion (RestVersion_handle_': handle) (RestVersion_project_': RestProject)

definition RestVersion_handle :: "RestVersion \<Rightarrow> handle" where
  "RestVersion_handle this = RestVersion_handle_' this"

definition RestVersion_project :: "RestVersion \<Rightarrow> RestProject" where
  "RestVersion_project this = RestVersion_project_' this"

datatype RestFile = RestFile (RestFile_handle_': handle) (RestFile_version_': RestVersion)

definition RestFile_version :: "RestFile \<Rightarrow> RestVersion" where
  "RestFile_version this = RestFile_version_' this"

definition RestFile_handle :: "RestFile \<Rightarrow> handle" where
  "RestFile_handle this = RestFile_handle_' this"

subsection \<open>\<^verbatim>\<open>RestFile\<close>\<close>

definition RestFile_path :: "RestFile \<Rightarrow> (string, RestFile) promise" where
  "RestFile_path this = (Inr '''', this)"

definition RestFile_move :: "RestFile \<Rightarrow> string \<Rightarrow> (unit, RestFile) promise" where
  "RestFile_move this path = (Inr (), this)"

definition RestFile_read :: "RestFile \<Rightarrow> (string, RestFile) promise" where
  "RestFile_read this = (Inr '''', this)"

definition RestFile_update :: "RestFile \<Rightarrow> string \<Rightarrow> (unit, RestFile) promise" where
  "RestFile_update this contents = (Inr (), this)"

definition RestFile_close :: "RestFile \<Rightarrow> (unit, RestFile) promise" where
  "RestFile_close this = (Inr (), this)"

section \<open>The briefs (\<^verbatim>\<open>src/index.ts\<close>)\<close>

text \<open>
  A brief is generic in the type of the entity that owns it. Its \<^verbatim>\<open>open\<close> reaches the
  owner's collection through the owner's interface (\<^verbatim>\<open>this.version_.files.open\<close>), so
  the two interface members it uses are passed as functions: the getter of the collection
  and the collection's \<^verbatim>\<open>open\<close>. \<^verbatim>\<open>File.Brief\<close> and \<^verbatim>\<open>Version.Brief\<close> declare no
  constructor; their fields are in the order of the declaration.
\<close>

datatype 'v File_Brief =
  File_Brief (File_Brief_version_': 'v) (File_Brief_path_': string) (File_Brief_handle_': handle)

definition File_Brief_version :: "'v File_Brief \<Rightarrow> 'v" where
  "File_Brief_version this = File_Brief_version_' this"

definition File_Brief_path :: "'v File_Brief \<Rightarrow> string" where
  "File_Brief_path this = File_Brief_path_' this"

definition File_Brief_handle :: "'v File_Brief \<Rightarrow> handle" where
  "File_Brief_handle this = File_Brief_handle_' this"

definition File_Brief_open ::
  "('v \<Rightarrow> 'files) \<Rightarrow> ('files \<Rightarrow> handle \<Rightarrow> 'r) \<Rightarrow> 'v File_Brief \<Rightarrow> 'r" where
  "File_Brief_open files open this = open (files (File_Brief_version_' this)) (File_Brief_handle_' this)"

datatype 'p Version_Brief =
  Version_Brief (Version_Brief_project_': 'p) (Version_Brief_name_': string)
    (Version_Brief_description_': "string option") (Version_Brief_handle_': handle)

definition Version_Brief_project :: "'p Version_Brief \<Rightarrow> 'p" where
  "Version_Brief_project this = Version_Brief_project_' this"

definition Version_Brief_handle :: "'p Version_Brief \<Rightarrow> handle" where
  "Version_Brief_handle this = Version_Brief_handle_' this"

definition Version_Brief_name :: "'p Version_Brief \<Rightarrow> string" where
  "Version_Brief_name this = Version_Brief_name_' this"

definition Version_Brief_description :: "'p Version_Brief \<Rightarrow> string option" where
  "Version_Brief_description this = Version_Brief_description_' this"

definition Version_Brief_open ::
  "('p \<Rightarrow> 'versions) \<Rightarrow> ('versions \<Rightarrow> handle \<Rightarrow> 'r) \<Rightarrow> 'p Version_Brief \<Rightarrow> 'r" where
  "Version_Brief_open versions open this =
     open (versions (Version_Brief_project_' this)) (Version_Brief_handle_' this)"

definition Version_Brief_restore ::
  "('p \<Rightarrow> 'versions) \<Rightarrow> ('versions \<Rightarrow> handle \<Rightarrow> string option \<Rightarrow> string option \<Rightarrow> 'r) \<Rightarrow>
   'p Version_Brief \<Rightarrow> string option \<Rightarrow> string option \<Rightarrow> 'r" where
  "Version_Brief_restore versions restore this name description =
     restore (versions (Version_Brief_project_' this)) (Version_Brief_handle_' this) name description"

text \<open>
  \<^verbatim>\<open>Project.Brief\<close> has a constructor, \<^verbatim>\<open>constructor(handle, name, user)\<close>.
\<close>

datatype 'u Project_Brief =
  Project_Brief (Project_Brief_handle_': handle) (Project_Brief_name_': string)
    (Project_Brief_user_': 'u)

definition Project_Brief_user :: "'u Project_Brief \<Rightarrow> 'u" where
  "Project_Brief_user this = Project_Brief_user_' this"

definition Project_Brief_name :: "'u Project_Brief \<Rightarrow> string" where
  "Project_Brief_name this = Project_Brief_name_' this"

definition Project_Brief_handle :: "'u Project_Brief \<Rightarrow> handle" where
  "Project_Brief_handle this = Project_Brief_handle_' this"

definition Project_Brief_open ::
  "('u \<Rightarrow> 'projects) \<Rightarrow> ('projects \<Rightarrow> handle \<Rightarrow> 'r) \<Rightarrow> 'u Project_Brief \<Rightarrow> 'r" where
  "Project_Brief_open projects open this =
     open (projects (Project_Brief_user_' this)) (Project_Brief_handle_' this)"

section \<open>The collections of \<^verbatim>\<open>src/Rest.ts\<close>\<close>

subsection \<open>\<^verbatim>\<open>RestVersion.Files\<close>\<close>

datatype RestVersion_Files = RestVersion_Files (RestVersion_Files_version_': RestVersion)

definition RestVersion_files :: "RestVersion \<Rightarrow> RestVersion_Files" where
  "RestVersion_files this = RestVersion_Files this"

definition RestVersion_Files_list ::
  "RestVersion_Files \<Rightarrow> (RestVersion File_Brief list, RestVersion_Files) promise" where
  "RestVersion_Files_list this = (Inr [], this)"

definition RestVersion_Files_create ::
  "RestVersion_Files \<Rightarrow> string \<Rightarrow> (RestFile, RestVersion_Files) promise" where
  "RestVersion_Files_create this path = (Inr (RestFile '''' (RestVersion_Files_version_' this)), this)"

definition RestVersion_Files_open ::
  "RestVersion_Files \<Rightarrow> handle \<Rightarrow> (RestFile, RestVersion_Files) promise" where
  "RestVersion_Files_open this handle = (Inr (RestFile handle (RestVersion_Files_version_' this)), this)"

subsection \<open>\<^verbatim>\<open>RestProject\<close> and \<^verbatim>\<open>RestProject.Versions\<close>\<close>

text \<open>
  \<^verbatim>\<open>async name() { if (name) return this.name_; return ''; }\<close>: the condition reads
  the global identifier, not the field. The promise resolves to a string or to
  \<^verbatim>\<open>undefined\<close> (\<open>None\<close>).
\<close>

definition RestProject_name :: "global \<Rightarrow> RestProject \<Rightarrow> (string option, RestProject) promise" where
  "RestProject_name name this =
     (case name of
        Undeclared \<Rightarrow> (Inl ReferenceError, this)
      | Truthy \<Rightarrow> (Inr (RestProject_name_' this), this)
      | Falsy \<Rightarrow> (Inr (Some ''''), this))"

definition RestProject_close :: "RestProject \<Rightarrow> (unit, RestProject) promise" where
  "RestProject_close this = (Inr (), this)"

datatype RestProject_Versions = RestProject_Versions (RestProject_Versions_project_': RestProject)

definition RestProject_versions :: "RestProject \<Rightarrow> RestProject_Versions" where
  "RestProject_versions this = RestProject_Versions this"

definition RestProject_Versions_list ::
  "RestProject_Versions \<Rightarrow> (RestProject Version_Brief list, RestProject_Versions) promise" where
  "RestProject_Versions_list this = (Inr [], this)"

definition RestProject_Versions_create ::
  "RestProject_Versions \<Rightarrow> string \<Rightarrow> string option \<Rightarrow> (RestVersion, RestProject_Versions) promise" where
  "RestProject_Versions_create this name description =
     (Inr (RestVersion '''' (RestProject_Versions_project_' this)), this)"

definition RestProject_Versions_restore ::
  "RestProject_Versions \<Rightarrow> handle \<Rightarrow> string option \<Rightarrow> string option \<Rightarrow>
   (RestVersion, RestProject_Versions) promise" where
  "RestProject_Versions_restore this handle name description =
     (Inr (RestVersion handle (RestProject_Versions_project_' this)), this)"

definition RestProject_Versions_open ::
  "RestProject_Versions \<Rightarrow> handle \<Rightarrow> (RestVersion, RestProject_Versions) promise" where
  "RestProject_Versions_open this handle =
     (Inr (RestVersion handle (RestProject_Versions_project_' this)), this)"

subsection \<open>\<^verbatim>\<open>RestUser.Projects\<close>\<close>

datatype RestUser_Projects = RestUser_Projects (RestUser_Projects_user_': RestUser)

definition RestUser_projects :: "RestUser \<Rightarrow> RestUser_Projects" where
  "RestUser_projects this = RestUser_Projects this"

definition RestUser_Projects_list ::
  "RestUser_Projects \<Rightarrow> (RestUser Project_Brief list, RestUser_Projects) promise" where
  "RestUser_Projects_list this = (Inr [], this)"

definition RestUser_Projects_create ::
  "RestUser_Projects \<Rightarrow> string \<Rightarrow> (RestProject, RestUser_Projects) promise" where
  "RestUser_Projects_create this name = (Inr (RestProject '''' (RestUser_Projects_user_' this)), this)"

definition RestUser_Projects_open ::
  "RestUser_Projects \<Rightarrow> handle \<Rightarrow> (RestProject, RestUser_Projects) promise" where
  "RestUser_Projects_open this handle =
     (Inr (RestProject handle (RestUser_Projects_user_' this)), this)"

definition RestUser_Projects_delete ::
  "RestUser_Projects \<Rightarrow> handle \<Rightarrow> (unit, RestUser_Projects) promise" where
  "RestUser_Projects_delete this handle = (Inr (), this)"

subsection \<open>\<^verbatim>\<open>RestClient\<close>\<close>

definition RestClient_login :: "RestClient \<Rightarrow> string \<Rightarrow> string \<Rightarrow> (RestUser, RestClient) promise" where
  "RestClient_login this username password = (Inr (RestUser '''' this), this)"

section \<open>What a call settles to\<close>

text \<open>
  Statements about every method of \<^verbatim>\<open>Rest.ts\<close> at once need one type for what a
  method may return: \<^verbatim>\<open>undefined\<close> (also what a \<^verbatim>\<open>Promise<void>\<close> resolves to), a
  string, an array, one of the four entity objects or a brief. A \<open>method_call\<close> is a
  method of the file with its receiver and arguments, in the order of the file, and
  \<open>settles\<close> runs it.
\<close>

datatype js_value =
    VUndefined
  | VString string
  | VArray "js_value list"
  | VFile RestFile
  | VVersion RestVersion
  | VProject RestProject
  | VUser RestUser
  | VFileBrief "RestVersion File_Brief"
  | VVersionBrief "RestProject Version_Brief"
  | VProjectBrief "RestUser Project_Brief"

datatype method_call =
    File_path RestFile
  | File_move RestFile string
  | File_read RestFile
  | File_update RestFile string
  | File_close RestFile
  | Files_list RestVersion_Files
  | Files_create RestVersion_Files string
  | Files_open RestVersion_Files handle
  | Project_name RestProject
  | Project_close RestProject
  | Versions_list RestProject_Versions
  | Versions_create RestProject_Versions string "string option"
  | Versions_restore RestProject_Versions handle "string option" "string option"
  | Versions_open RestProject_Versions handle
  | Projects_list RestUser_Projects
  | Projects_create RestUser_Projects string
  | Projects_open RestUser_Projects handle
  | Projects_delete RestUser_Projects handle
  | Client_login RestClient string string

definition of_void :: "unit \<Rightarrow> js_value" where
  "of_void u = VUndefined"

definition of_optional_string :: "string option \<Rightarrow> js_value" where
  "of_optional_string s = (case s of None \<Rightarrow> VUndefined | Some x \<Rightarrow> VString x)"

fun settles :: "global \<Rightarrow> method_call \<Rightarrow> error + js_value" where
  "settles g (File_path f) = map_sum id VString (fst (RestFile_path f))"
| "settles g (File_move f path) = map_sum id of_void (fst (RestFile_move f path))"
| "settles g (File_read f) = map_sum id VString (fst (RestFile_read f))"
| "settles g (File_update f contents) = map_sum id of_void (fst (RestFile_update f contents))"
| "settles g (File_close f) = map_sum id of_void (fst (RestFile_close f))"
| "settles g (Files_list c) = map_sum id (VArray \<circ> map VFileBrief) (fst (RestVersion_Files_list c))"
| "settles g (Files_create c path) = map_sum id VFile (fst (RestVersion_Files_create c path))"
| "settles g (Files_open c h) = map_sum id VFile (fst (RestVersion_Files_open c h))"
| "settles g (Project_name p) = map_sum id of_optional_string (fst (RestProject_name g p))"
| "settles g (Project_close p) = map_sum id of_void (fst (RestProject_close p))"
| "settles g (Versions_list c) =
     map_sum id (VArray \<circ> map VVersionBrief) (fst (RestProject_Versions_list c))"
| "settles g (Versions_create c name description) =
     map_sum id VVersion (fst (RestProject_Versions_create c name description))"
| "settles g (Versions_restore c h name description) =
     map_sum id VVersion (fst (RestProject_Versions_restore c h name description))"
| "settles g (Versions_open c h) = map_sum id VVersion (fst (RestProject_Versions_open c h))"
| "settles g (Projects_list c) =
     map_sum id (VArray \<circ> map VProjectBrief) (fst (RestUser_Projects_list c))"
| "settles g (Projects_create c name) = map_sum id VProject (fst (RestUser_Projects_create c name))"
| "settles g (Projects_open c h) = map_sum id VProject (fst (RestUser_Projects_open c h))"
| "settles g (Projects_delete c h) = map_sum id of_void (fst (RestUser_Projects_delete c h))"
| "settles g (Client_login c username password) =
     map_sum id VUser (fst (RestClient_login c username password))"

section \<open>The declared members of the entities\<close>

text \<open>
  Which members an entity exposes is a fact about its declaration. Each interface of
  \<^verbatim>\<open>index.ts\<close> and each entity class of \<^verbatim>\<open>Rest.ts\<close> is listed with its members in
  the order of the source: a property of an interface with or without \<^verbatim>\<open>readonly\<close>,
  a method, and for a class a \<^verbatim>\<open>private\<close> field or a \<^verbatim>\<open>get\<close> accessor (no class
  of the file declares a \<^verbatim>\<open>set\<close> accessor, so a getter is read-only).
\<close>

datatype member = ReadonlyProperty | Property | Method | Getter | PrivateField

type_synonym members = "(string \<times> member) list"

definition File_interface :: members where
  "File_interface =
     [(''handle'', ReadonlyProperty), (''path'', Method), (''move'', Method), (''read'', Method),
      (''update'', Method), (''close'', Method)]"

definition Version_interface :: members where
  "Version_interface = [(''handle'', Property), (''files'', Property)]"

definition Project_interface :: members where
  "Project_interface =
     [(''handle'', Property), (''name'', Method), (''versions'', Property), (''close'', Method)]"

definition User_interface :: members where
  "User_interface =
     [(''handle'', Property), (''name'', Method), (''email'', Method), (''setEmail'', Method),
      (''projects'', Property), (''organizations'', Property)]"

definition Organization_interface :: members where
  "Organization_interface = [(''name'', Method), (''description'', Method), (''users'', Property)]"

definition RestFile_class :: members where
  "RestFile_class =
     [(''version_'', PrivateField), (''handle_'', PrivateField), (''version'', Getter),
      (''handle'', Getter), (''path'', Method), (''move'', Method), (''read'', Method),
      (''update'', Method), (''close'', Method)]"

definition RestVersion_class :: members where
  "RestVersion_class =
     [(''handle_'', PrivateField), (''project_'', PrivateField), (''files_'', PrivateField),
      (''handle'', Getter), (''project'', Getter), (''files'', Getter)]"

definition RestProject_class :: members where
  "RestProject_class =
     [(''user_'', PrivateField), (''handle_'', PrivateField), (''name_'', PrivateField),
      (''versions_'', PrivateField), (''user'', Getter), (''handle'', Getter), (''name'', Method),
      (''versions'', Getter), (''close'', Method)]"

definition RestUser_class :: members where
  "RestUser_class =
     [(''client_'', PrivateField), (''token_'', PrivateField), (''projects_'', PrivateField),
      (''client'', Getter), (''projects'', Getter)]"

section \<open>Sequences of calls\<close>





section \<open>The objects of the usage script\<close>

text \<open>
  The script that accompanies \<^verbatim>\<open>Rest.ts\<close> builds a client with the default URL, logs
  in with two empty strings, opens the project \<^verbatim>\<open>asdasd\<close> and its version
  \<^verbatim>\<open>asdasdds\<close>. These are the objects those calls return.
\<close>

abbreviation script_rest :: RestClient where
  "script_rest \<equiv> RestClient DEFAULT_URL"

abbreviation script_user :: RestUser where
  "script_user \<equiv> RestUser '''' script_rest"

abbreviation script_project :: RestProject where
  "script_project \<equiv> RestProject ''asdasd'' script_user"

abbreviation script_version :: RestVersion where
  "script_version \<equiv> RestVersion ''asdasdds'' script_project"

lemma script_objects:
  "fst (RestClient_login script_rest '''' '''') = Inr script_user"
  "fst (RestUser_Projects_open (RestUser_projects script_user) ''asdasd'') = Inr script_project"
  "fst (RestProject_Versions_open (RestProject_versions script_project) ''asdasdds'') = Inr script_version"
  by (simp_all add: RestClient_login_def RestUser_Projects_open_def RestUser_projects_def
      RestProject_Versions_open_def RestProject_versions_def)

section \<open>Unfolding the model\<close>

lemmas getters =
  RestClient_url_def RestUser_client_def RestProject_user_def RestProject_handle_def
  RestVersion_handle_def RestVersion_project_def RestFile_version_def RestFile_handle_def
  File_Brief_version_def File_Brief_path_def File_Brief_handle_def
  Version_Brief_project_def Version_Brief_handle_def Version_Brief_name_def
  Version_Brief_description_def Project_Brief_user_def Project_Brief_name_def
  Project_Brief_handle_def RestVersion_files_def RestProject_versions_def RestUser_projects_def

lemmas methods =
  RestFile_path_def RestFile_move_def RestFile_read_def RestFile_update_def RestFile_close_def
  RestVersion_Files_list_def RestVersion_Files_create_def RestVersion_Files_open_def
  RestProject_close_def RestProject_Versions_list_def RestProject_Versions_create_def
  RestProject_Versions_restore_def RestProject_Versions_open_def
  RestUser_Projects_list_def RestUser_Projects_create_def RestUser_Projects_open_def
  RestUser_Projects_delete_def RestClient_login_def






text \<open>
  What \<^verbatim>\<open>RestProject.name\<close> settles to follows the global identifier \<^verbatim>\<open>name\<close>, not
  the field \<^verbatim>\<open>name_\<close>: without a binding the promise rejects, with a true value it
  resolves to the field, which the constructor left \<^verbatim>\<open>undefined\<close>, and only with a
  false value to the empty string.
\<close>

lemma RestProject_name_by_global:
  "fst (RestProject_name Undeclared (RestProject h u)) = Inl ReferenceError"
  "fst (RestProject_name Truthy (RestProject h u)) = Inr None"
  "fst (RestProject_name Falsy (RestProject h u)) = Inr (Some '''')"
  by (simp_all add: RestProject_name_def RestProject_def)

section \<open>C1: a brief opens what its parent collection opens\<close>

text \<open>
  C1. For every brief, \<^verbatim>\<open>brief.open()\<close> is the parent collection's \<^verbatim>\<open>open\<close> at the
  brief's handle: a file brief gives \<^verbatim>\<open>version.files.open(handle)\<close>, a version brief
  \<^verbatim>\<open>project.versions.open(handle)\<close>, a project brief \<^verbatim>\<open>user.projects.open(handle)\<close>.
  This holds for any implementation of the owner's interface (the first three conjuncts),
  and so for the REST classes (the last three). Each call runs \<^verbatim>\<open>new\<close>, so the two
  results are two objects; they are the same in that they are built from the same handle
  and the same parent.
\<close>

theorem brief_open_is_collection_open:
  "File_Brief_open files fopen fb = fopen (files (File_Brief_version fb)) (File_Brief_handle fb)
   \<and> Version_Brief_open versions vopen vb =
       vopen (versions (Version_Brief_project vb)) (Version_Brief_handle vb)
   \<and> Project_Brief_open projects popen pb =
       popen (projects (Project_Brief_user pb)) (Project_Brief_handle pb)
   \<and> File_Brief_open RestVersion_files RestVersion_Files_open rfb =
       RestVersion_Files_open (RestVersion_files (File_Brief_version rfb)) (File_Brief_handle rfb)
   \<and> Version_Brief_open RestProject_versions RestProject_Versions_open rvb =
       RestProject_Versions_open (RestProject_versions (Version_Brief_project rvb))
         (Version_Brief_handle rvb)
   \<and> Project_Brief_open RestUser_projects RestUser_Projects_open rpb =
       RestUser_Projects_open (RestUser_projects (Project_Brief_user rpb)) (Project_Brief_handle rpb)"
  by (simp add: File_Brief_open_def Version_Brief_open_def Project_Brief_open_def getters)

section \<open>C2: update followed by read\<close>

text \<open>
  C2. For every file and every contents, \<^verbatim>\<open>update(contents)\<close> followed by \<^verbatim>\<open>read()\<close>
  returns exactly the contents. The \<^verbatim>\<open>File\<close> interface documents \<^verbatim>\<open>read\<close> as reading
  the contents of the file and \<^verbatim>\<open>update\<close> as updating them; \<^verbatim>\<open>RestFile\<close>, which
  implements the interface, does not do so: on a file of the script's version, after
  \<^verbatim>\<open>update('int main(){}')\<close> the read returns the empty string, not that text.
\<close>

theorem update_then_read_loses_contents:
  "fst (RestFile_read (snd (RestFile_update (RestFile ''f'' script_version) ''int main(){}'')))
     = Inr ''''
   \<and> fst (RestFile_read (snd (RestFile_update (RestFile ''f'' script_version) ''int main(){}'')))
     \<noteq> Inr ''int main(){}''"
  by (simp add: RestFile_read_def)

section \<open>C3: the head of the version list\<close>

text \<open>
  C3. The first element of \<^verbatim>\<open>versions.list()\<close> is the version created or restored
  last, and right after \<^verbatim>\<open>versions.create(name)\<close> the returned version is at index 0.
  The \<^verbatim>\<open>Project.Versions\<close> interface documents \<^verbatim>\<open>list\<close> as returning all versions
  of the project with HEAD first, and \<^verbatim>\<open>create\<close> as returning the new version;
  \<^verbatim>\<open>RestProject.Versions\<close> does not do so: creating \<^verbatim>\<open>v1\<close> in the script's project
  returns a version, and the list after it is empty, so it has no index 0.
\<close>

theorem created_version_is_not_listed:
  "fst (RestProject_Versions_create (RestProject_versions script_project) ''v1'' None) =
       Inr (RestVersion '''' script_project)
   \<and> fst (RestProject_Versions_list
         (snd (RestProject_Versions_create (RestProject_versions script_project) ''v1'' None))) =
       Inr []
   \<and> \<not> 0 < length (projr (fst (RestProject_Versions_list
         (snd (RestProject_Versions_create (RestProject_versions script_project) ''v1'' None)))))"
  by (simp add: RestProject_Versions_list_def RestProject_Versions_create_def
      RestProject_versions_def)

section \<open>C4: restore\<close>

text \<open>
  C4. \<^verbatim>\<open>restore(V.handle)\<close> puts a new version with the content of \<open>V\<close> at index 0
  of \<^verbatim>\<open>list()\<close> and leaves \<open>V\<close> as it was. The interface documents \<^verbatim>\<open>restore\<close> as
  pushing a new version to the version stack and returning the version that is now HEAD;
  \<^verbatim>\<open>RestProject.Versions.restore\<close> does not push: restoring the script's version in
  the script's project returns a version with that same handle, and the list after it is
  empty, so it has no index 0.
\<close>

theorem restored_version_is_not_listed:
  "fst (RestProject_Versions_restore (RestProject_versions script_project)
          ''asdasdds'' None None) = Inr script_version
   \<and> fst (RestProject_Versions_list
         (snd (RestProject_Versions_restore (RestProject_versions script_project)
                ''asdasdds'' None None))) = Inr []
   \<and> \<not> 0 < length (projr (fst (RestProject_Versions_list
         (snd (RestProject_Versions_restore (RestProject_versions script_project)
                ''asdasdds'' None None)))))"
  by (simp add: RestProject_Versions_list_def RestProject_Versions_restore_def
      RestProject_versions_def)

section \<open>C5: creating a file at a path in use\<close>



section \<open>C6: operations after close\<close>



section \<open>C7: login\<close>

text \<open>
  C7 as stated (\<^verbatim>\<open>login\<close> with a pair that is not valid credentials fails with an
  authentication error) fails: the client keeps no credentials, and logging in as
  \<^verbatim>\<open>alice\<close> with the password \<^verbatim>\<open>wrong\<close> does not fail with AuthenticationFailed.
\<close>

theorem login_rejects_counterexample:
  "fst (RestClient_login script_rest ''alice'' ''wrong'') \<noteq> Inl AuthenticationFailed"
  by (simp add: RestClient_login_def)

text \<open>
  C7, amended. \<^verbatim>\<open>login(username, password)\<close> never fails: for every pair it returns a
  user with the empty token whose client is the receiver, and leaves the client as it was.
\<close>

theorem login_never_fails:
  "fst (RestClient_login C username password) = Inr (RestUser '''' C)
   \<and> snd (RestClient_login C username password) = C
   \<and> RestUser_client (RestUser '''' C) = C"
  by (simp add: RestClient_login_def RestUser_client_def)

section \<open>C8: the handle of every entity\<close>

text \<open>
  C8 (every entity exposes a read-only \<^verbatim>\<open>handle\<close>) against the declarations.
  \<^verbatim>\<open>RestUser\<close> declares no \<^verbatim>\<open>handle\<close>, although the \<^verbatim>\<open>User\<close> interface it
  implements declares one, and the \<^verbatim>\<open>Organization\<close> interface declares none either;
  the \<^verbatim>\<open>File\<close>, \<^verbatim>\<open>Version\<close> and \<^verbatim>\<open>Project\<close> interfaces declare it
  (\<^verbatim>\<open>readonly\<close> for \<^verbatim>\<open>File\<close> only) and their REST classes expose it through a getter.
\<close>

theorem handle_members_of_entities:
  "map_of RestUser_class ''handle'' = None
   \<and> map_of User_interface ''handle'' = Some Property
   \<and> map_of Organization_interface ''handle'' = None
   \<and> map_of File_interface ''handle'' = Some ReadonlyProperty
   \<and> map_of Version_interface ''handle'' = Some Property
   \<and> map_of Project_interface ''handle'' = Some Property
   \<and> map_of RestFile_class ''handle'' = Some Getter
   \<and> map_of RestVersion_class ''handle'' = Some Getter
   \<and> map_of RestProject_class ''handle'' = Some Getter"
  by (simp add: RestUser_class_def User_interface_def Organization_interface_def
      File_interface_def Version_interface_def Project_interface_def RestFile_class_def
      RestVersion_class_def RestProject_class_def)

section \<open>C9: placeholders\<close>

text \<open>
  C9 as stated (every method returns an empty string, an empty list or nothing, for every
  input) fails: \<^verbatim>\<open>files.open('h')\<close> on the script's version settles to none of the
  three.
\<close>

theorem placeholder_counterexample:
  "settles Falsy (Files_open (RestVersion_files script_version) ''h'')
     \<notin> {Inr (VString ''''), Inr (VArray []), Inr VUndefined}"
  by (simp add: RestVersion_Files_open_def)

text \<open>
  C9, amended. For every input: the methods of \<^verbatim>\<open>RestFile\<close> return the empty string
  (\<^verbatim>\<open>path\<close>, \<^verbatim>\<open>read\<close>) or nothing (\<^verbatim>\<open>move\<close>, \<^verbatim>\<open>update\<close>, \<^verbatim>\<open>close\<close>); the three
  \<^verbatim>\<open>list\<close> methods return the empty list; \<^verbatim>\<open>RestProject.close\<close> and
  \<^verbatim>\<open>Projects.delete\<close> return nothing; \<^verbatim>\<open>RestProject.name\<close> returns the empty string
  where the global \<^verbatim>\<open>name\<close> it tests is false. The \<^verbatim>\<open>create\<close>, \<^verbatim>\<open>open\<close>,
  \<^verbatim>\<open>restore\<close> and \<^verbatim>\<open>login\<close> methods return a constructed entity instead: with the
  empty handle for \<^verbatim>\<open>create\<close>, the given handle for \<^verbatim>\<open>open\<close> and \<^verbatim>\<open>restore\<close>, the
  empty token for \<^verbatim>\<open>login\<close>.
\<close>

theorem placeholder_methods:
  "settles g (File_path F) = Inr (VString '''')
   \<and> settles g (File_move F path) = Inr VUndefined
   \<and> settles g (File_read F) = Inr (VString '''')
   \<and> settles g (File_update F contents) = Inr VUndefined
   \<and> settles g (File_close F) = Inr VUndefined
   \<and> settles g (Files_list fs) = Inr (VArray [])
   \<and> settles g (Project_close P) = Inr VUndefined
   \<and> settles g (Versions_list vs) = Inr (VArray [])
   \<and> settles g (Projects_list ps) = Inr (VArray [])
   \<and> settles g (Projects_delete ps h) = Inr VUndefined
   \<and> settles Falsy (Project_name P) = Inr (VString '''')
   \<and> settles g (Files_create fs path) = Inr (VFile (RestFile '''' (RestVersion_Files_version_' fs)))
   \<and> settles g (Files_open fs h) = Inr (VFile (RestFile h (RestVersion_Files_version_' fs)))
   \<and> settles g (Versions_create vs name description) =
       Inr (VVersion (RestVersion '''' (RestProject_Versions_project_' vs)))
   \<and> settles g (Versions_restore vs h name' description) =
       Inr (VVersion (RestVersion h (RestProject_Versions_project_' vs)))
   \<and> settles g (Versions_open vs h) =
       Inr (VVersion (RestVersion h (RestProject_Versions_project_' vs)))
   \<and> settles g (Projects_create ps name) =
       Inr (VProject (RestProject '''' (RestUser_Projects_user_' ps)))
   \<and> settles g (Projects_open ps h) = Inr (VProject (RestProject h (RestUser_Projects_user_' ps)))
   \<and> settles g (Client_login C username password) = Inr (VUser (RestUser '''' C))"
  by (simp add: methods RestProject_name_def of_void_def of_optional_string_def)

section \<open>C10: what open, restore and create construct\<close>

text \<open>
  C10. For every handle \<open>h\<close>, \<^verbatim>\<open>Files.open(h)\<close>, \<^verbatim>\<open>Versions.open(h)\<close> and
  \<^verbatim>\<open>Versions.restore(h)\<close> return an entity constructed with the handle \<open>h\<close> and the
  collection's own parent, so the restored version carries the handle it was restored
  from; \<^verbatim>\<open>Files.create(path)\<close> returns a file with the empty handle, whatever the path.
\<close>

theorem open_restore_create_construct:
  "fst (RestVersion_Files_open (RestVersion_files V) h) = Inr (RestFile h V)
   \<and> RestFile_handle (RestFile h V) = h
   \<and> RestFile_version (RestFile h V) = V
   \<and> fst (RestProject_Versions_open (RestProject_versions P) h) = Inr (RestVersion h P)
   \<and> fst (RestProject_Versions_restore (RestProject_versions P) h name description) =
       Inr (RestVersion h P)
   \<and> RestVersion_handle (RestVersion h P) = h
   \<and> RestVersion_project (RestVersion h P) = P
   \<and> fst (RestVersion_Files_create (RestVersion_files V) path) = Inr (RestFile '''' V)
   \<and> RestFile_handle (RestFile '''' V) = ''''"
  by (simp add: methods getters)

end
